theory Spec2Isabelle
  imports Complex_Main "HOL-Library.Sublist"
begin

section \<open>Particle effects of the enhanced uptime graph (enhanced_graph.py)\<close>

text \<open>
  The theory embeds the classes \<^verbatim>\<open>Particle\<close> and \<^verbatim>\<open>ParticleSystem\<close> and the method
  \<^verbatim>\<open>EnhancedGraphWidget.clear_graph\<close> of \<^verbatim>\<open>enhanced_graph.py\<close>.

  Numbers. The Python code computes with floats (IEEE doubles). \<open>Particle_update\<close> is
  the method in exact real arithmetic. \<open>Particle_update_fl\<close> is the same method with
  the result of every float operation passed through a rounding function \<open>fl\<close>:
  \<open>to_double\<close>, rounding to the nearest double, gives the arithmetic of the source, and
  \<open>exact\<close>, which rounds nothing, gives \<open>Particle_update\<close> back. Infinities and NaN are
  outside both
  models. Concrete inputs of the exact model are dyadic fractions on which the float
  operations of the source are exact as well.

  Objects. A \<^verbatim>\<open>Particle\<close> is a record; a method that mutates \<^verbatim>\<open>self\<close> takes the record
  and returns the updated one together with the method's return value. Every particle of
  a system is created by its own constructor call, so no two list entries alias.

  Collaborators. \<^verbatim>\<open>random.random()\<close> is a sequence \<open>rnd\<close> of reals with a position that
  each call advances; \<^verbatim>\<open>time.time()\<close> is a parameter of \<^verbatim>\<open>ParticleSystem.update\<close>;
  \<^verbatim>\<open>QColor\<close>, the painter and the view box of the plot widget are modelled by what the
  code calls on them.
\<close>

subsection \<open>Python and Qt primitives\<close>

text \<open>\<^verbatim>\<open>int(f)\<close> on a float truncates towards zero.\<close>

definition py_int :: "real \<Rightarrow> int" where
  "py_int f = (if f < 0 then \<lceil>f\<rceil> else \<lfloor>f\<rfloor>)"

text \<open>
  \<^verbatim>\<open>round(f)\<close> of Python 3 rounds to the nearest integer and a tie to the even one. It is
  not called by the source; the specification words its alpha formula with it.
\<close>

definition py_round :: "real \<Rightarrow> int" where
  "py_round f =
     (let n = \<lfloor>f\<rfloor>; d = f - of_int n
      in if d < 1 / 2 then n else if 1 / 2 < d then n + 1 else if even n then n else n + 1)"

text \<open>
  \<^verbatim>\<open>QColor(r, g, b, a)\<close>. \<^verbatim>\<open>QColor.setAlpha\<close> belongs to Qt, which stores an alpha in
  the range 0..255 and brings any other argument into that range.
\<close>

record QColor =
  red :: int
  green :: int
  blue :: int
  alpha :: int

definition setAlpha :: "QColor \<Rightarrow> int \<Rightarrow> QColor" where
  "setAlpha c a = c\<lparr>alpha := max 0 (min a 255)\<rparr>"

subsection \<open>Particle\<close>

text \<open>
  The fields \<^verbatim>\<open>x\<close>, \<^verbatim>\<open>y\<close> and \<^verbatim>\<open>size\<close> of the source are \<open>x_pos\<close>, \<open>y_pos\<close> and
  \<open>size_px\<close> here; the other fields keep their names.
\<close>

record Particle =
  x_pos :: real
  y_pos :: real
  start_x :: real
  start_y :: real
  effect_type :: string
  life :: real
  max_life :: real
  size_px :: real
  velocity_x :: real
  velocity_y :: real
  color :: QColor

text \<open>
  \<^verbatim>\<open>Particle.__init__(self, x, y, effect_type="sparkle")\<close>. The argument \<open>rnd\<close> is the
  sequence of values that \<^verbatim>\<open>random.random()\<close> returns and \<open>k\<close> the number of values
  drawn so far; the result carries the new count. \<open>None\<close> for the effect type is the
  call that leaves the argument out.
\<close>

definition Particle_init ::
  "(nat \<Rightarrow> real) \<Rightarrow> nat \<Rightarrow> real \<Rightarrow> real \<Rightarrow> string option \<Rightarrow> Particle \<times> nat" where
  "Particle_init rnd k x y effect_type_arg =
     (let et = (case effect_type_arg of None \<Rightarrow> ''sparkle'' | Some e \<Rightarrow> e);
          self = \<lparr>x_pos = x, y_pos = y, start_x = x, start_y = y, effect_type = et,
                  life = 1.0, max_life = 1.0, size_px = 3.0,
                  velocity_x = 0, velocity_y = 0,
                  color = \<lparr>red = 102, green = 187, blue = 106, alpha = 255\<rparr>\<rparr>
      in if et = ''celebration'' then
           (self\<lparr>velocity_x := (0.5 - rnd k) * 20,
                  velocity_y := - 10 - rnd (k + 1) * 15,
                  size_px := 4.0 + rnd (k + 2) * 3,
                  color := \<lparr>red = 255, green = 215, blue = 0, alpha = 255\<rparr>\<rparr>, k + 3)
         else if et = ''sparkle'' then
           (self\<lparr>velocity_x := (0.5 - rnd k) * 5,
                  velocity_y := (0.5 - rnd (k + 1)) * 5,
                  size_px := 2.0 + rnd (k + 2) * 2\<rparr>, k + 3)
         else if et = ''pulse'' then
           (self\<lparr>size_px := 8.0,
                  color := \<lparr>red = 102, green = 187, blue = 106, alpha = 200\<rparr>\<rparr>, k)
         else (self, k))"

text \<open>
  \<^verbatim>\<open>Particle.update(self, dt=0.016)\<close>: the updated particle and the returned flag. The
  three blocks follow the source: the decrement of \<open>life\<close>, the branch on the effect
  type, and the alpha of every type but pulse.
\<close>

definition Particle_update :: "Particle \<Rightarrow> real \<Rightarrow> Particle \<times> bool" where
  "Particle_update self dt =
     (let s1 = self\<lparr>life := life self - dt * 2.0\<rparr>;
          s2 = (if effect_type s1 = ''celebration'' then
                  s1\<lparr>x_pos := x_pos s1 + velocity_x s1 * dt,
                     y_pos := y_pos s1 + velocity_y s1 * dt,
                     velocity_y := velocity_y s1 + 30 * dt\<rparr>
                else if effect_type s1 = ''sparkle'' then
                  s1\<lparr>x_pos := x_pos s1 + velocity_x s1 * dt,
                     y_pos := y_pos s1 + velocity_y s1 * dt\<rparr>
                else if effect_type s1 = ''pulse'' then
                  (let pulse_progress = 1.0 - life s1;
                       alpha = py_int (200 * life s1)
                   in s1\<lparr>size_px := 8.0 + pulse_progress * 20,
                         color := setAlpha (color s1) (max 0 alpha)\<rparr>)
                else s1);
          s3 = (if effect_type s2 \<noteq> ''pulse'' then
                  (let alpha = py_int (255 * life s2)
                   in s2\<lparr>color := setAlpha (color s2) (max 0 alpha)\<rparr>)
                else s2)
      in (s3, 0 < life s3))"

text \<open>
  The only caller, \<^verbatim>\<open>ParticleSystem.update\<close>, always passes \<open>dt\<close>, so the default
  \<^verbatim>\<open>dt=0.016\<close> of the signature is never taken.

  The particle after \<open>n\<close> calls \<^verbatim>\<open>update(dt)\<close> with the same \<open>dt\<close>:
\<close>

fun update_times :: "nat \<Rightarrow> real \<Rightarrow> Particle \<Rightarrow> Particle" where
  "update_times 0 dt p = p"
| "update_times (Suc n) dt p = update_times n dt (fst (Particle_update p dt))"

text \<open>
  The states a particle goes through under the calls \<^verbatim>\<open>update(dt)\<close> for the \<open>dt\<close> of a
  list, the starting state first.
\<close>

fun update_trace :: "Particle \<Rightarrow> real list \<Rightarrow> Particle list" where
  "update_trace p [] = [p]"
| "update_trace p (dt # dts) = p # update_trace (fst (Particle_update p dt)) dts"

subsection \<open>Double-precision arithmetic\<close>

text \<open>
  \<open>exp_up x\<close> counts the halvings that bring \<open>x \<ge> 2\<close> below 2 and \<open>exp_down x\<close> the
  doublings that bring \<open>0 < x < 1\<close> up to 1, so \<open>binexp x\<close> is the binary exponent of
  \<open>x > 0\<close>: \<open>2 ^ binexp x \<le> x < 2 * 2 ^ binexp x\<close>.
\<close>

function exp_up :: "real \<Rightarrow> nat" where
  "exp_up x = (if 2 \<le> x then Suc (exp_up (x / 2)) else 0)"
  by pat_completeness auto
termination
proof (relation "measure (\<lambda>x. nat \<lfloor>x\<rfloor>)")
  show "wf (measure (\<lambda>x::real. nat \<lfloor>x\<rfloor>))" by simp
next
  fix x :: real
  assume "2 \<le> x"
  then have "x / 2 \<le> x - 1" by simp
  then have "\<lfloor>x / 2\<rfloor> \<le> \<lfloor>x - 1\<rfloor>" by (rule floor_mono)
  moreover have "2 \<le> \<lfloor>x\<rfloor>" using \<open>2 \<le> x\<close> by (simp add: le_floor_iff)
  ultimately show "(x / 2, x) \<in> measure (\<lambda>x. nat \<lfloor>x\<rfloor>)" by simp
qed

function exp_down :: "real \<Rightarrow> nat" where
  "exp_down x = (if 0 < x \<and> x < 1 then Suc (exp_down (x * 2)) else 0)"
  by pat_completeness auto
termination
proof (relation "measure (\<lambda>x. nat \<lceil>1 / x\<rceil>)")
  show "wf (measure (\<lambda>x::real. nat \<lceil>1 / x\<rceil>))" by simp
next
  fix x :: real
  assume a: "0 < x \<and> x < 1"
  then have y: "1 < 1 / x" by simp
  then have c2: "2 \<le> \<lceil>1 / x\<rceil>" by (simp add: le_ceiling_iff)
  have "1 / (x * 2) \<le> of_int \<lceil>1 / x\<rceil> / 2"
    using le_of_int_ceiling [of "1 / x"] by simp
  also have "\<dots> \<le> of_int (\<lceil>1 / x\<rceil> - 1)"
    using c2 by simp
  finally have "\<lceil>1 / (x * 2)\<rceil> \<le> \<lceil>1 / x\<rceil> - 1"
    by (simp only: ceiling_le_iff)
  with c2 a show "(x * 2, x) \<in> measure (\<lambda>x. nat \<lceil>1 / x\<rceil>)" by simp
qed

declare exp_up.simps [simp del] exp_down.simps [simp del]

definition binexp :: "real \<Rightarrow> int" where
  "binexp x = (if 1 \<le> x then int (exp_up x) else - int (exp_down x))"

definition pow2 :: "int \<Rightarrow> real" where
  "pow2 e = (if 0 \<le> e then 2 ^ nat e else 1 / 2 ^ nat (- e))"

text \<open>
  \<open>to_double x\<close> is the double nearest to \<open>x\<close>, a tie going to the even significand
  (the rounding of every IEEE operation in Python): a significand of 53 bits, and the
  fixed spacing \<open>2 ^ - 1074\<close> below \<open>2 ^ - 1022\<close>. Overflow to infinity is not modelled.
\<close>

definition to_double :: "real \<Rightarrow> real" where
  "to_double x =
     (if x = 0 then 0
      else (let e = max (binexp \<bar>x\<bar>) (- 1022);
                u = pow2 (e - 52)
            in of_int (py_round (x / u)) * u))"

text \<open>
  \<^verbatim>\<open>Particle.update(self, dt=0.016)\<close> with every float operation rounded by \<open>fl\<close>. The
  operations are those of the source, in its order: \<^verbatim>\<open>dt * 2.0\<close> and the subtraction from
  \<open>life\<close>; the products with \<open>dt\<close> and the additions of the motion; \<^verbatim>\<open>1.0 - life\<close>,
  the product with 20 and the addition to 8.0 of the pulse; the products \<^verbatim>\<open>200 * life\<close>
  and \<^verbatim>\<open>255 * life\<close>. \<^verbatim>\<open>int\<close>, \<^verbatim>\<open>max\<close> and the comparison with 0 are exact.
\<close>

definition Particle_update_fl :: "(real \<Rightarrow> real) \<Rightarrow> Particle \<Rightarrow> real \<Rightarrow> Particle \<times> bool" where
  "Particle_update_fl fl self dt =
     (let s1 = self\<lparr>life := fl (life self - fl (dt * 2.0))\<rparr>;
          s2 = (if effect_type s1 = ''celebration'' then
                  s1\<lparr>x_pos := fl (x_pos s1 + fl (velocity_x s1 * dt)),
                     y_pos := fl (y_pos s1 + fl (velocity_y s1 * dt)),
                     velocity_y := fl (velocity_y s1 + fl (30 * dt))\<rparr>
                else if effect_type s1 = ''sparkle'' then
                  s1\<lparr>x_pos := fl (x_pos s1 + fl (velocity_x s1 * dt)),
                     y_pos := fl (y_pos s1 + fl (velocity_y s1 * dt))\<rparr>
                else if effect_type s1 = ''pulse'' then
                  (let pulse_progress = fl (1.0 - life s1);
                       alpha = py_int (fl (200 * life s1))
                   in s1\<lparr>size_px := fl (8.0 + fl (pulse_progress * 20)),
                         color := setAlpha (color s1) (max 0 alpha)\<rparr>)
                else s1);
          s3 = (if effect_type s2 \<noteq> ''pulse'' then
                  (let alpha = py_int (fl (255 * life s2))
                   in s2\<lparr>color := setAlpha (color s2) (max 0 alpha)\<rparr>)
                else s2)
      in (s3, 0 < life s3))"

text \<open>The particle after \<open>n\<close> calls \<^verbatim>\<open>update(dt)\<close> in the arithmetic of \<open>fl\<close>.\<close>

fun update_times_fl :: "(real \<Rightarrow> real) \<Rightarrow> nat \<Rightarrow> real \<Rightarrow> Particle \<Rightarrow> Particle" where
  "update_times_fl fl 0 dt p = p"
| "update_times_fl fl (Suc n) dt p = update_times_fl fl n dt (fst (Particle_update_fl fl p dt))"

text \<open>The rounding function of exact arithmetic.\<close>

definition exact :: "real \<Rightarrow> real" where
  "exact x = x"

subsection \<open>ParticleSystem\<close>

record ParticleSystem =
  particles :: "Particle list"
  last_update :: real

text \<open>\<^verbatim>\<open>ParticleSystem.__init__\<close>; \<open>now\<close> is the value of \<^verbatim>\<open>time.time()\<close>.\<close>

definition ParticleSystem_init :: "real \<Rightarrow> ParticleSystem" where
  "ParticleSystem_init now = \<lparr>particles = [], last_update = now\<rparr>"

text \<open>
  The loop \<^verbatim>\<open>for _ in range(count): self.particles.append(Particle(x, y, et))\<close> of
  \<^verbatim>\<open>add_celebration_burst\<close> and \<^verbatim>\<open>add_sparkles\<close>, with the number of iterations left
  as its first argument. The state is the particle system and the position in \<open>rnd\<close>.
\<close>

fun append_loop ::
  "nat \<Rightarrow> (nat \<Rightarrow> real) \<Rightarrow> real \<Rightarrow> real \<Rightarrow> string \<Rightarrow> ParticleSystem \<times> nat
     \<Rightarrow> ParticleSystem \<times> nat" where
  "append_loop 0 rnd x y et (self, k) = (self, k)"
| "append_loop (Suc n) rnd x y et (self, k) =
     (let (p, k') = Particle_init rnd k x y (Some et)
      in append_loop n rnd x y et (self\<lparr>particles := particles self @ [p]\<rparr>, k'))"

text \<open>
  \<^verbatim>\<open>add_celebration_burst(self, x, y, count=8)\<close> and \<^verbatim>\<open>add_sparkles(self, x, y, count=3)\<close>:
  \<open>None\<close> for \<open>count\<close> is the call that leaves it out; \<^verbatim>\<open>range(count)\<close> is empty for a
  count below 1.
\<close>

definition add_celebration_burst ::
  "(nat \<Rightarrow> real) \<Rightarrow> ParticleSystem \<times> nat \<Rightarrow> real \<Rightarrow> real \<Rightarrow> int option
     \<Rightarrow> ParticleSystem \<times> nat" where
  "add_celebration_burst rnd st x y count_arg =
     (let count = (case count_arg of None \<Rightarrow> 8 | Some c \<Rightarrow> c)
      in append_loop (nat count) rnd x y ''celebration'' st)"

definition add_sparkles ::
  "(nat \<Rightarrow> real) \<Rightarrow> ParticleSystem \<times> nat \<Rightarrow> real \<Rightarrow> real \<Rightarrow> int option
     \<Rightarrow> ParticleSystem \<times> nat" where
  "add_sparkles rnd st x y count_arg =
     (let count = (case count_arg of None \<Rightarrow> 3 | Some c \<Rightarrow> c)
      in append_loop (nat count) rnd x y ''sparkle'' st)"

definition add_pulse ::
  "(nat \<Rightarrow> real) \<Rightarrow> ParticleSystem \<times> nat \<Rightarrow> real \<Rightarrow> real \<Rightarrow> ParticleSystem \<times> nat" where
  "add_pulse rnd st x y =
     (case st of (self, k) \<Rightarrow>
        (let (p, k') = Particle_init rnd k x y (Some ''pulse'')
         in (self\<lparr>particles := particles self @ [p]\<rparr>, k')))"

text \<open>
  The comprehension \<^verbatim>\<open>[p for p in self.particles if p.update(dt)]\<close>: every particle is
  updated, in list order, and kept when its \<^verbatim>\<open>update\<close> returns true.
\<close>

fun update_particles :: "real \<Rightarrow> Particle list \<Rightarrow> Particle list" where
  "update_particles dt [] = []"
| "update_particles dt (p # ps) =
     (let (p', alive) = Particle_update p dt
      in if alive then p' # update_particles dt ps else update_particles dt ps)"

text \<open>\<^verbatim>\<open>ParticleSystem.update(self)\<close>; \<open>current_time\<close> is the value of \<^verbatim>\<open>time.time()\<close>.\<close>

definition ParticleSystem_update :: "ParticleSystem \<Rightarrow> real \<Rightarrow> ParticleSystem" where
  "ParticleSystem_update self current_time =
     (let dt = current_time - last_update self;
          s1 = self\<lparr>last_update := current_time\<rparr>
      in s1\<lparr>particles := update_particles dt (particles s1)\<rparr>)"

subsection \<open>Drawing\<close>

text \<open>
  The painter is the list of the calls made on it. A view box is its method
  \<^verbatim>\<open>mapViewToDevice\<close> on the point \<^verbatim>\<open>pg.Point(x, y)\<close>: the call raises, returns \<^verbatim>\<open>None\<close>,
  or returns a pixel position. A plot widget either has no attribute \<^verbatim>\<open>getViewBox\<close>,
  or \<^verbatim>\<open>getViewBox()\<close> returns \<^verbatim>\<open>None\<close> or a view box.
\<close>

datatype painter_call =
    SetPen QColor int
  | SetBrush QColor
  | DrawEllipse int int int int

type_synonym painter = "painter_call list"

datatype map_result = MapRaises | MapNone | MapPoint real real

type_synonym view_box = "real \<Rightarrow> real \<Rightarrow> map_result"

datatype plot_widget = NoGetViewBox | GetViewBox "view_box option"

datatype py_exception = Exception

text \<open>The body of the \<^verbatim>\<open>try\<close> block for one particle: \<open>Inl\<close> when it raises.\<close>

definition draw_particle :: "view_box \<Rightarrow> Particle \<Rightarrow> painter \<Rightarrow> py_exception + painter" where
  "draw_particle view_box particle painter =
     (case view_box (x_pos particle) (y_pos particle) of
        MapRaises \<Rightarrow> Inl Exception
      | MapNone \<Rightarrow> Inr painter
      | MapPoint px py \<Rightarrow>
          (let p1 = painter @ [SetPen (color particle) 1];
               p2 = p1 @ [SetBrush (color particle)]
           in if effect_type particle = ''pulse'' then
                Inr (p2 @ [DrawEllipse (py_int (px - size_px particle / 2))
                                       (py_int (py - size_px particle / 2))
                                       (py_int (size_px particle))
                                       (py_int (size_px particle))])
              else
                Inr (p2 @ [DrawEllipse (py_int (px - size_px particle / 2))
                                       (py_int (py - size_px particle / 2))
                                       (py_int (size_px particle))
                                       (py_int (size_px particle))])))"

text \<open>The \<^verbatim>\<open>for\<close> loop: \<^verbatim>\<open>except: continue\<close> goes on with the next particle.\<close>

fun draw_loop :: "view_box \<Rightarrow> Particle list \<Rightarrow> painter \<Rightarrow> painter" where
  "draw_loop view_box [] painter = painter"
| "draw_loop view_box (particle # rest) painter =
     (case draw_particle view_box particle painter of
        Inl e \<Rightarrow> draw_loop view_box rest painter
      | Inr painter' \<Rightarrow> draw_loop view_box rest painter')"

text \<open>
  \<^verbatim>\<open>ParticleSystem.draw(self, painter, plot_widget)\<close>: the system and the painter after
  the call.
\<close>

definition draw :: "ParticleSystem \<Rightarrow> painter \<Rightarrow> plot_widget \<Rightarrow> ParticleSystem \<times> painter" where
  "draw self painter plot_widget =
     (case plot_widget of
        NoGetViewBox \<Rightarrow> (self, painter)
      | GetViewBox None \<Rightarrow> (self, painter)
      | GetViewBox (Some view_box) \<Rightarrow> (self, draw_loop view_box (particles self) painter))"

subsection \<open>EnhancedGraphWidget.clear_graph\<close>

text \<open>
  The fields of the widget that \<^verbatim>\<open>clear_graph\<close> touches. \<open>uptime_line\<close> is \<open>None\<close>
  before \<^verbatim>\<open>setup_plot_elements\<close> has run and the plotted data afterwards. The module
  constant \<^verbatim>\<open>HAS_ENHANCED_GRAPHICS\<close> is the first argument; when it is false the
  constructor returns before it creates a particle system.
\<close>

record EnhancedGraphWidget =
  particle_system :: ParticleSystem
  uptime_history :: "real list"
  time_points :: "int list"
  uptime_line :: "(int list \<times> real list) option"

definition clear_graph :: "bool \<Rightarrow> EnhancedGraphWidget \<Rightarrow> EnhancedGraphWidget" where
  "clear_graph HAS_ENHANCED_GRAPHICS self =
     (if \<not> HAS_ENHANCED_GRAPHICS then self
      else
        (let s1 = self\<lparr>uptime_history := []\<rparr>;
             s2 = s1\<lparr>time_points := []\<rparr>;
             s3 = s2\<lparr>particle_system := (particle_system s2)\<lparr>particles := []\<rparr>\<rparr>
         in case uptime_line s3 of
              None \<Rightarrow> s3
            | Some d \<Rightarrow> s3\<lparr>uptime_line := Some ([], [])\<rparr>))"

subsection \<open>Invariant of a pulse\<close>


subsection \<open>Example inputs\<close>

text \<open>A random source whose every draw is 0.5, and the particles it gives at (10, 20).\<close>

definition rnd_half :: "nat \<Rightarrow> real" where
  "rnd_half n = 1 / 2"

definition new_pulse :: Particle where
  "new_pulse = fst (Particle_init rnd_half 0 10 20 (Some ''pulse''))"

definition new_celebration :: Particle where
  "new_celebration = fst (Particle_init rnd_half 0 10 20 (Some ''celebration''))"

definition new_ripple :: Particle where
  "new_ripple = fst (Particle_init rnd_half 0 10 20 (Some ''ripple''))"

text \<open>
  A system created at time 0 that gets a pulse, is updated at time 3/8 and then gets two
  sparkles: the pulse has life 1/4 left, the sparkles are new.
\<close>

definition example_system :: ParticleSystem where
  "example_system =
     (let s1 = add_pulse rnd_half (ParticleSystem_init 0, 0) 10 20;
          s2 = (ParticleSystem_update (fst s1) (3 / 8), snd s1)
      in fst (add_sparkles rnd_half s2 10 20 (Some 2)))"

text \<open>
  A view box whose mapping raises for every point left of the origin and maps any other
  point to the pixel \<open>(2 * x, 3 * y)\<close>, and a system of two new pulses, the first of
  them left of the origin.
\<close>

definition raises_left :: view_box where
  "raises_left vx vy = (if vx < 0 then MapRaises else MapPoint (2 * vx) (3 * vy))"

definition example_far_left :: ParticleSystem where
  "example_far_left =
     (let s1 = add_pulse rnd_half (ParticleSystem_init 0, 0) (- 1) 5
      in fst (add_pulse rnd_half s1 10 20))"

text \<open>
  The doubles nearest to 0.1 and to 1/18, and the double \<^verbatim>\<open>0.24901960784313726\<close>.
\<close>

definition dt_tenth :: real where
  "dt_tenth = 3602879701896397 / 36028797018963968"

definition dt_eighteenth :: real where
  "dt_eighteenth = 2001599834386887 / 36028797018963968"

definition dt_alpha :: real where
  "dt_alpha = 280371153272575 / 1125899906842624"

section \<open>Properties\<close>

subsection \<open>Facts about one update\<close>

lemma Particle_update_life: "life (fst (Particle_update p dt)) = life p - 2 * dt"
  by (simp add: Particle_update_def Let_def mult.commute)

lemma Particle_update_alive: "snd (Particle_update p dt) = (0 < life p - 2 * dt)"
  by (simp add: Particle_update_def Let_def mult.commute)

lemma Particle_update_effect_type: "effect_type (fst (Particle_update p dt)) = effect_type p"
  by (simp add: Particle_update_def Let_def)

lemma Particle_init_life: "life (fst (Particle_init rnd k x y et)) = 1"
  by (simp add: Particle_init_def Let_def)

lemma py_int_nonpos: "f \<le> 0 \<Longrightarrow> py_int f \<le> 0"
  by (auto simp: py_int_def ceiling_le_iff floor_le_iff)

lemma py_int_le: "f \<le> of_int n \<Longrightarrow> py_int f \<le> n"
  by (auto simp: py_int_def ceiling_le_iff floor_le_iff)

lemma update_particles_filter:
  "update_particles dt ps =
     map (\<lambda>q. fst (Particle_update q dt)) (filter (\<lambda>q. snd (Particle_update q dt)) ps)"
  by (induction ps) (auto simp: Let_def split: prod.splits)

lemma update_particles_alive: "\<forall>p \<in> set (update_particles dt ps). 0 < life p"
  by (auto simp: update_particles_filter Particle_update_alive Particle_update_life)

lemma example_system_particles:
  "map effect_type (particles example_system) = [''pulse'', ''sparkle'', ''sparkle'']
   \<and> map life (particles example_system) = [1 / 4, 1, 1]
   \<and> last_update example_system = 3 / 8"
  by (simp add: example_system_def add_pulse_def add_sparkles_def ParticleSystem_init_def
      ParticleSystem_update_def Particle_init_def Particle_update_def Let_def
      numeral_2_eq_2)






lemma Particle_init_fields:
  "effect_type (fst (Particle_init rnd k x y (Some et))) = et"
  "x_pos (fst (Particle_init rnd k x y (Some et))) = x"
  "y_pos (fst (Particle_init rnd k x y (Some et))) = y"
  by (simp_all add: Particle_init_def Let_def)

lemma append_loop_particles:
  "\<exists>new. particles (fst (append_loop n rnd x y et (self, k))) = particles self @ new
     \<and> length new = n
     \<and> (\<forall>p \<in> set new. effect_type p = et \<and> x_pos p = x \<and> y_pos p = y)"
proof (induction n arbitrary: self k)
  case 0
  show ?case by simp
next
  case (Suc n)
  obtain p k' where init: "Particle_init rnd k x y (Some et) = (p, k')"
    by (cases "Particle_init rnd k x y (Some et)")
  then have p: "effect_type p = et \<and> x_pos p = x \<and> y_pos p = y"
    using Particle_init_fields [of rnd k x y et] by simp
  from Suc.IH [of "self\<lparr>particles := particles self @ [p]\<rparr>" k']
  obtain new where new:
    "particles (fst (append_loop n rnd x y et (self\<lparr>particles := particles self @ [p]\<rparr>, k')))
       = (particles self @ [p]) @ new"
    "length new = n" "\<forall>q \<in> set new. effect_type q = et \<and> x_pos q = x \<and> y_pos q = y"
    by auto
  have "particles (fst (append_loop (Suc n) rnd x y et (self, k))) = particles self @ (p # new)"
    using init new(1) by simp
  moreover have "length (p # new) = Suc n" using new(2) by simp
  moreover have "\<forall>q \<in> set (p # new). effect_type q = et \<and> x_pos q = x \<and> y_pos q = y"
    using p new(3) by simp
  ultimately show ?case by blast
qed

lemma other_update:
  assumes "effect_type p \<notin> {''celebration'', ''sparkle'', ''pulse''}"
  shows "x_pos (fst (Particle_update p dt)) = x_pos p"
    and "y_pos (fst (Particle_update p dt)) = y_pos p"
    and "alpha (color (fst (Particle_update p dt))) = max 0 (min (py_int (255 * (life p - 2 * dt))) 255)"
  using assms by (simp_all add: Particle_update_def Let_def setAlpha_def mult.commute)

lemma other_trace:
  assumes "effect_type p \<notin> {''celebration'', ''sparkle'', ''pulse''}"
  shows "\<forall>q \<in> set (update_trace p dts). x_pos q = x_pos p \<and> y_pos q = y_pos p"
  using assms
proof (induction dts arbitrary: p)
  case Nil
  then show ?case by simp
next
  case (Cons dt dts)
  let ?p' = "fst (Particle_update p dt)"
  have "effect_type ?p' \<notin> {''celebration'', ''sparkle'', ''pulse''}"
    using Cons.prems by (simp add: Particle_update_effect_type)
  from Cons.IH [OF this] other_update(1,2) [OF Cons.prems, of dt]
  show ?case by simp
qed

lemma draw_loop_append:
  "draw_loop view_box (ps @ qs) painter = draw_loop view_box qs (draw_loop view_box ps painter)"
  by (induction ps arbitrary: painter) (simp_all split: sum.splits)

lemma draw_loop_extends: "\<exists>calls. draw_loop view_box ps painter = painter @ calls"
proof (induction ps arbitrary: painter)
  case Nil
  show ?case by simp
next
  case (Cons p ps)
  show ?case
  proof (cases "draw_particle view_box p painter")
    case (Inl e)
    with Cons.IH [of painter] show ?thesis by simp
  next
    case (Inr painter')
    then obtain c where c: "painter' = painter @ c"
      by (auto simp: draw_particle_def Let_def split: map_result.splits if_splits)
    from Cons.IH [of painter'] obtain calls where "draw_loop view_box ps painter' = painter' @ calls"
      by blast
    with Inr c show ?thesis by simp
  qed
qed

subsection \<open>Facts about the rounded update\<close>

lemma exp_up_eval:
  "2 \<le> x \<Longrightarrow> exp_up x = Suc (exp_up (x / 2))"
  "x < 2 \<Longrightarrow> exp_up x = 0"
  by (simp_all add: exp_up.simps)

lemma exp_down_eval:
  "0 < x \<Longrightarrow> x < 1 \<Longrightarrow> exp_down x = Suc (exp_down (x * 2))"
  "1 \<le> x \<Longrightarrow> exp_down x = 0"
  by (simp_all add: exp_down.simps)

lemmas double_eval = to_double_def binexp_def pow2_def py_round_def Let_def
  exp_up_eval exp_down_eval

lemma Particle_update_fl_exact: "Particle_update_fl exact p dt = Particle_update p dt"
  unfolding Particle_update_fl_def Particle_update_def exact_def ..

lemma update_times_fl_exact: "update_times_fl exact n dt p = update_times n dt p"
  by (induction n arbitrary: p) (simp_all add: Particle_update_fl_exact)

lemma Particle_update_fl_life:
  "life (fst (Particle_update_fl fl p dt)) = fl (life p - fl (dt * 2))"
  by (simp add: Particle_update_fl_def Let_def)

lemma Particle_update_fl_alive:
  "snd (Particle_update_fl fl p dt) = (0 < life (fst (Particle_update_fl fl p dt)))"
  by (simp add: Particle_update_fl_def Let_def)

lemma Particle_update_fl_effect_type:
  "effect_type (fst (Particle_update_fl fl p dt)) = effect_type p"
  by (simp add: Particle_update_fl_def Let_def)

lemma update_times_fl_Suc:
  "update_times_fl fl (Suc n) dt p = fst (Particle_update_fl fl (update_times_fl fl n dt p) dt)"
  by (induction n arbitrary: p) simp_all

lemma life_update_times_fl_error:
  assumes "fl (dt * 2) = dt * 2"
    and "\<forall>k<n. \<bar>fl (life (update_times_fl fl k dt p) - dt * 2)
                    - (life (update_times_fl fl k dt p) - dt * 2)\<bar> \<le> e"
  shows "\<bar>life (update_times_fl fl n dt p) - (life p - 2 * dt * real n)\<bar> \<le> real n * e"
  using assms(2)
proof (induction n)
  case 0
  show ?case by simp
next
  case (Suc n)
  let ?l = "life (update_times_fl fl n dt p)"
  have ih: "\<bar>?l - (life p - 2 * dt * real n)\<bar> \<le> real n * e"
    using Suc by simp
  have step: "\<bar>fl (?l - dt * 2) - (?l - dt * 2)\<bar> \<le> e"
    using Suc.prems by simp
  have eq: "life (update_times_fl fl (Suc n) dt p) = fl (?l - dt * 2)"
    by (simp only: update_times_fl_Suc Particle_update_fl_life assms(1))
  have "\<bar>fl (?l - dt * 2) - (life p - 2 * dt * real (Suc n))\<bar>
          \<le> \<bar>fl (?l - dt * 2) - (?l - dt * 2)\<bar> + \<bar>?l - (life p - 2 * dt * real n)\<bar>"
    by (simp add: algebra_simps) 
  also have "\<dots> \<le> e + real n * e"
    using step ih by simp
  finally have "\<bar>fl (?l - dt * 2) - (life p - 2 * dt * real (Suc n))\<bar> \<le> real (Suc n) * e"
    by (simp add: algebra_simps)
  then show ?case
    by (simp only: eq)
qed

lemma lives_tenth:
  "life (update_times_fl to_double 0 dt_tenth new_ripple) = 1"
  "life (update_times_fl to_double 1 dt_tenth new_ripple) = 3602879701896397 / 4503599627370496"
  "life (update_times_fl to_double 2 dt_tenth new_ripple) = 1351079888211149 / 2251799813685248"
  "life (update_times_fl to_double 3 dt_tenth new_ripple) = 7205759403792795 / 18014398509481984"
  "life (update_times_fl to_double 4 dt_tenth new_ripple) = 1801439850948199 / 9007199254740992"
  "life (update_times_fl to_double 5 dt_tenth new_ripple) = 1 / 18014398509481984"
  "life (update_times_fl to_double 6 dt_tenth new_ripple) = - 900719925474099 / 4503599627370496"
  by (simp_all add: eval_nat_numeral Particle_update_fl_life dt_tenth_def new_ripple_def
      Particle_init_life double_eval)

lemma lives_eighteenth:
  "life (update_times_fl to_double 8 dt_eighteenth new_ripple) = 500399958596721 / 4503599627370496"
  "life (update_times_fl to_double 9 dt_eighteenth new_ripple) = - 3 / 18014398509481984"
  by (simp_all add: eval_nat_numeral Particle_update_fl_life dt_eighteenth_def new_ripple_def
      Particle_init_life double_eval)

lemma Particle_update_fl_alpha:
  "alpha (color (fst (Particle_update_fl fl p dt))) =
     (if effect_type p = ''pulse''
      then max 0 (min (py_int (fl (200 * life (fst (Particle_update_fl fl p dt))))) 255)
      else max 0 (min (py_int (fl (255 * life (fst (Particle_update_fl fl p dt))))) 255))"
  by (simp add: Particle_update_fl_def Let_def setAlpha_def max_def min_def)

text \<open>
  Rounding to a double moves a number between -2 and 2 by at most \<open>2 ^ - 53\<close>.
\<close>

lemma py_round_error: "\<bar>of_int (py_round f) - f\<bar> \<le> 1 / 2"
proof -
  have "of_int \<lfloor>f\<rfloor> \<le> f" "f < of_int \<lfloor>f\<rfloor> + 1"
    by linarith+
  then show ?thesis
    by (auto simp: py_round_def Let_def abs_le_iff)
qed

lemma binexp_small: "x < 2 \<Longrightarrow> binexp x \<le> 0"
  by (simp add: binexp_def exp_up_eval)

lemma pow2_small: "e \<le> 0 \<Longrightarrow> 0 < pow2 (e - 52) \<and> pow2 (e - 52) \<le> 1 / 2 ^ 52"
proof -
  assume e: "e \<le> 0"
  then have eq: "pow2 (e - 52) = 1 / 2 ^ nat (52 - e)"
    by (simp add: pow2_def)
  have "(2::real) ^ 52 \<le> 2 ^ nat (52 - e)"
    using e by (intro power_increasing) simp_all
  then have "1 / 2 ^ nat (52 - e) \<le> 1 / (2::real) ^ 52"
    by (intro divide_left_mono) simp_all
  then show ?thesis unfolding eq by simp
qed

lemma to_double_error:
  assumes "\<bar>x\<bar> < 2"
  shows "\<bar>to_double x - x\<bar> \<le> 1 / 2 ^ 53"
proof (cases "x = 0")
  case True
  then show ?thesis by (simp add: to_double_def)
next
  case False
  define e where "e = max (binexp \<bar>x\<bar>) (- 1022)"
  define u where "u = pow2 (e - 52)"
  have "e \<le> 0" using binexp_small [OF assms] by (simp add: e_def)
  then have u: "0 < u" "u \<le> 1 / 2 ^ 52"
    using pow2_small [of e] by (simp_all add: u_def)
  have td: "to_double x = of_int (py_round (x / u)) * u"
    using False by (simp add: to_double_def Let_def e_def u_def)
  have "to_double x - x = (of_int (py_round (x / u)) - x / u) * u"
    using u(1) by (simp add: td field_simps)
  then have "\<bar>to_double x - x\<bar> = \<bar>of_int (py_round (x / u)) - x / u\<bar> * u"
    using u(1) by (simp only: abs_mult abs_of_pos)
  also have "\<dots> \<le> 1 / 2 * u"
    using py_round_error [of "x / u"] u(1) by (intro mult_right_mono) simp_all
  also have "\<dots> \<le> 1 / 2 * (1 / 2 ^ 52)"
    using u(2) by simp
  finally show ?thesis by simp
qed

lemma rounding_errors_tenth:
  "\<bar>to_double (life (update_times_fl to_double 0 dt_tenth new_ripple) - dt_tenth * 2)
     - (life (update_times_fl to_double 0 dt_tenth new_ripple) - dt_tenth * 2)\<bar> \<le> 1 / 2 ^ 53"
  "\<bar>to_double (life (update_times_fl to_double 1 dt_tenth new_ripple) - dt_tenth * 2)
     - (life (update_times_fl to_double 1 dt_tenth new_ripple) - dt_tenth * 2)\<bar> \<le> 1 / 2 ^ 53"
  "\<bar>to_double (life (update_times_fl to_double 2 dt_tenth new_ripple) - dt_tenth * 2)
     - (life (update_times_fl to_double 2 dt_tenth new_ripple) - dt_tenth * 2)\<bar> \<le> 1 / 2 ^ 53"
  "\<bar>to_double (life (update_times_fl to_double 3 dt_tenth new_ripple) - dt_tenth * 2)
     - (life (update_times_fl to_double 3 dt_tenth new_ripple) - dt_tenth * 2)\<bar> \<le> 1 / 2 ^ 53"
  "\<bar>to_double (life (update_times_fl to_double 4 dt_tenth new_ripple) - dt_tenth * 2)
     - (life (update_times_fl to_double 4 dt_tenth new_ripple) - dt_tenth * 2)\<bar> \<le> 1 / 2 ^ 53"
  "\<bar>to_double (life (update_times_fl to_double 5 dt_tenth new_ripple) - dt_tenth * 2)
     - (life (update_times_fl to_double 5 dt_tenth new_ripple) - dt_tenth * 2)\<bar> \<le> 1 / 2 ^ 53"
  unfolding lives_tenth by (simp_all add: dt_tenth_def double_eval)

lemma rounding_errors_tenth_all: "\<forall>k<Suc 5. \<bar>to_double (life (update_times_fl to_double k dt_tenth new_ripple) - dt_tenth * 2)
             - (life (update_times_fl to_double k dt_tenth new_ripple) - dt_tenth * 2)\<bar>
             \<le> 1 / 2 ^ 53"
proof (intro allI impI)
  fix k :: nat
  assume "k < Suc 5"
  then consider "k = 0" | "k = 1" | "k = 2" | "k = 3" | "k = 4" | "k = 5"
    by linarith
  then show "\<bar>to_double (life (update_times_fl to_double k dt_tenth new_ripple) - dt_tenth * 2)
             - (life (update_times_fl to_double k dt_tenth new_ripple) - dt_tenth * 2)\<bar>
             \<le> 1 / 2 ^ 53"
    using rounding_errors_tenth by cases (simp_all only:)
qed

subsection \<open>The claims\<close>

text \<open>
  C1. After \<^verbatim>\<open>ParticleSystem.update()\<close> every particle of the collection has
  \<open>life > 0\<close>, and the collection is the updated state of a subsequence of the old one:
  the survivors, in the order they had before the call.
\<close>

theorem ParticleSystem_update_survivors:
  "(\<forall>p \<in> set (particles (ParticleSystem_update self current_time)). 0 < life p)
   \<and> (\<exists>kept. subseq kept (particles self)
        \<and> particles (ParticleSystem_update self current_time) =
            map (\<lambda>q. fst (Particle_update q (current_time - last_update self))) kept)"
proof -
  let ?dt = "current_time - last_update self"
  have eq: "particles (ParticleSystem_update self current_time) =
              update_particles ?dt (particles self)"
    by (simp add: ParticleSystem_update_def Let_def)
  have "subseq (filter (\<lambda>q. snd (Particle_update q ?dt)) (particles self)) (particles self)"
    by simp
  then show ?thesis
    using update_particles_alive[of ?dt "particles self"]
      update_particles_filter[of ?dt "particles self"]
    unfolding eq by blast
qed

theorem ParticleSystem_update_survivors_witness:
  "map effect_type (particles (ParticleSystem_update example_system (1 / 2)))
     = [''sparkle'', ''sparkle'']
   \<and> 0 < life (hd (particles (ParticleSystem_update example_system (1 / 2))))"
proof -
  have ty: "map effect_type (particles (ParticleSystem_update example_system (1 / 2)))
              = [''sparkle'', ''sparkle'']"
    by (simp add: example_system_def add_pulse_def add_sparkles_def ParticleSystem_init_def
        ParticleSystem_update_def Particle_init_def Particle_update_def Let_def
        numeral_2_eq_2)
  then have "particles (ParticleSystem_update example_system (1 / 2)) \<noteq> []"
    by auto
  then have "hd (particles (ParticleSystem_update example_system (1 / 2)))
      \<in> set (particles (ParticleSystem_update example_system (1 / 2)))"
    by simp
  with ParticleSystem_update_survivors [of example_system "1 / 2"] ty show ?thesis
    by blast
qed



text \<open>
  C3, as stated, fails. With \<open>dt = 1/8\<close> the bound \<open>ceil(0.5 / (2 * dt))\<close> is 2, and the
  first two calls on a new particle both return true (its life is 3/4, then 1/2), in
  exact and in double arithmetic alike. The rounding of the doubles shifts the last call
  as well, in both directions: with the double nearest to 0.1 call 5 still returns true,
  although \<open>ceil(1 / (2 * dt)) = 5\<close>, and with the double nearest to 1/18 call 9 returns
  false, although \<open>1 - 2 * dt * 9\<close> is above 0.
\<close>

theorem lifetime_bound_counterexample:
  "nat \<lceil>0.5 / (2 * (1 / 8 :: real))\<rceil> = 2
   \<and> snd (Particle_update (update_times 0 (1 / 8) new_pulse) (1 / 8))
   \<and> snd (Particle_update (update_times 1 (1 / 8) new_pulse) (1 / 8))
   \<and> snd (Particle_update_fl to_double (update_times_fl to_double 0 (1 / 8) new_ripple) (1 / 8))
   \<and> snd (Particle_update_fl to_double (update_times_fl to_double 1 (1 / 8) new_ripple) (1 / 8))
   \<and> to_double (1 / 10) = dt_tenth
   \<and> nat \<lceil>1 / (2 * dt_tenth)\<rceil> = 5
   \<and> snd (Particle_update_fl to_double (update_times_fl to_double 4 dt_tenth new_ripple) dt_tenth)
   \<and> to_double (1 / 18) = dt_eighteenth
   \<and> 0 < 1 - 2 * dt_eighteenth * 9
   \<and> \<not> snd (Particle_update_fl to_double (update_times_fl to_double 8 dt_eighteenth new_ripple)
           dt_eighteenth)"
proof -
  have a: "nat \<lceil>0.5 / (2 * (1 / 8 :: real))\<rceil> = 2
     \<and> snd (Particle_update (update_times 0 (1 / 8) new_pulse) (1 / 8))
     \<and> snd (Particle_update (update_times 1 (1 / 8) new_pulse) (1 / 8))"
    by (simp add: Particle_update_alive Particle_update_life new_pulse_def Particle_init_life)
  have b: "snd (Particle_update_fl to_double (update_times_fl to_double 0 (1 / 8) new_ripple) (1 / 8))
     \<and> snd (Particle_update_fl to_double (update_times_fl to_double 1 (1 / 8) new_ripple) (1 / 8))"
    by (simp add: Particle_update_fl_alive Particle_update_fl_life new_ripple_def
        Particle_init_life double_eval)
  have c: "to_double (1 / 10) = dt_tenth \<and> nat \<lceil>1 / (2 * dt_tenth)\<rceil> = 5"
    by (simp add: dt_tenth_def double_eval)
  have d: "snd (Particle_update_fl to_double (update_times_fl to_double 4 dt_tenth new_ripple) dt_tenth)"
    unfolding Particle_update_fl_alive update_times_fl_Suc [symmetric]
    by (simp add: lives_tenth(6) del: update_times_fl.simps)
  have e: "to_double (1 / 18) = dt_eighteenth \<and> 0 < 1 - 2 * dt_eighteenth * 9"
    by (simp add: dt_eighteenth_def double_eval)
  have f: "\<not> snd (Particle_update_fl to_double (update_times_fl to_double 8 dt_eighteenth new_ripple)
           dt_eighteenth)"
    unfolding Particle_update_fl_alive update_times_fl_Suc [symmetric]
    by (simp add: lives_eighteenth(2) del: update_times_fl.simps)
  from a b c d e f show ?thesis by blast
qed

text \<open>
  C3, amended. Take a newly constructed particle (life 1), a \<open>dt\<close> whose doubling is
  exact, and suppose that each of the first \<open>n\<close> subtractions \<open>life - 2 * dt\<close> is rounded
  with an error of at most \<open>e\<close> (0 in exact arithmetic; \<open>2 ^ - 53\<close> for doubles while the
  difference lies between -2 and 2). Then call \<open>n\<close> of \<^verbatim>\<open>update(dt)\<close> returns true exactly
  when the life it stored is above 0, and that life is within \<open>n * e\<close> of
  \<open>1 - 2 * dt * n\<close>. So call \<open>n\<close> returns true when \<open>2 * dt * n + n * e < 1\<close> (no death
  before the life is used up, rounding allowed for) and false when
  \<open>2 * dt * n \<ge> 1 + n * e\<close>; for \<open>e < 2 * dt\<close> the call number \<open>ceil(1 / (2 * dt - e))\<close>
  returns false. Here \<open>n = m + 1\<close>.
\<close>

theorem Particle_update_lifetime_rounded:
  assumes "fl (dt * 2) = dt * 2"
    and "\<forall>k<Suc m. \<bar>fl (life (update_times_fl fl k dt (fst (Particle_init rnd i x y et))) - dt * 2)
             - (life (update_times_fl fl k dt (fst (Particle_init rnd i x y et))) - dt * 2)\<bar> \<le> e"
  shows "snd (Particle_update_fl fl (update_times_fl fl m dt (fst (Particle_init rnd i x y et))) dt)
           = (0 < life (update_times_fl fl (Suc m) dt (fst (Particle_init rnd i x y et))))
   \<and> \<bar>life (update_times_fl fl (Suc m) dt (fst (Particle_init rnd i x y et)))
        - (1 - 2 * dt * real (Suc m))\<bar> \<le> real (Suc m) * e
   \<and> (2 * dt * real (Suc m) + real (Suc m) * e < 1 \<longrightarrow>
        snd (Particle_update_fl fl (update_times_fl fl m dt (fst (Particle_init rnd i x y et))) dt))
   \<and> (1 + real (Suc m) * e \<le> 2 * dt * real (Suc m) \<longrightarrow>
        \<not> snd (Particle_update_fl fl (update_times_fl fl m dt (fst (Particle_init rnd i x y et))) dt))
   \<and> (e < 2 * dt \<and> Suc m = nat \<lceil>1 / (2 * dt - e)\<rceil> \<longrightarrow>
        \<not> snd (Particle_update_fl fl (update_times_fl fl m dt (fst (Particle_init rnd i x y et))) dt))"
proof -
  let ?p0 = "fst (Particle_init rnd i x y et)"
  let ?n = "real (Suc m)"
  let ?l = "life (update_times_fl fl (Suc m) dt ?p0)"
  let ?flag = "snd (Particle_update_fl fl (update_times_fl fl m dt ?p0) dt)"
  have flag: "?flag = (0 < ?l)"
    by (simp only: Particle_update_fl_alive update_times_fl_Suc)
  have "\<bar>?l - (life ?p0 - 2 * dt * ?n)\<bar> \<le> ?n * e"
    using assms by (rule life_update_times_fl_error)
  then have err: "\<bar>?l - (1 - 2 * dt * ?n)\<bar> \<le> ?n * e"
    by (simp only: Particle_init_life)
  have up: "2 * dt * ?n + ?n * e < 1 \<longrightarrow> ?flag"
    using err unfolding flag by (auto simp: abs_le_iff)
  have down: "1 + ?n * e \<le> 2 * dt * ?n \<longrightarrow> \<not> ?flag"
    using err unfolding flag by (auto simp: abs_le_iff)
  have bound: "e < 2 * dt \<and> Suc m = nat \<lceil>1 / (2 * dt - e)\<rceil> \<longrightarrow> \<not> ?flag"
  proof
    assume a: "e < 2 * dt \<and> Suc m = nat \<lceil>1 / (2 * dt - e)\<rceil>"
    then have pos: "0 < 2 * dt - e" by simp
    have "1 / (2 * dt - e) \<le> of_int \<lceil>1 / (2 * dt - e)\<rceil>"
      by (rule le_of_int_ceiling)
    also have "\<dots> \<le> real (nat \<lceil>1 / (2 * dt - e)\<rceil>)"
      by simp
    finally have "1 / (2 * dt - e) \<le> ?n" using a by simp
    then have "1 \<le> ?n * (2 * dt - e)"
      using pos by (simp add: field_simps)
    then have "1 + ?n * e \<le> 2 * dt * ?n"
      by (simp add: algebra_simps)
    with down show "\<not> ?flag" by blast
  qed
  from flag err up down bound show ?thesis by blast
qed

theorem Particle_update_lifetime_rounded_witness:
  "\<not> snd (Particle_update_fl to_double (update_times_fl to_double 5 dt_tenth new_ripple) dt_tenth)
   \<and> snd (Particle_update_fl to_double (update_times_fl to_double 3 dt_tenth new_ripple) dt_tenth)
   \<and> nat \<lceil>1 / (2 * dt_tenth - 1 / 2 ^ 53)\<rceil> = 6"
proof -
  have dbl: "to_double (dt_tenth * 2) = dt_tenth * 2"
    by (simp add: dt_tenth_def double_eval)
  note err = rounding_errors_tenth_all
  have err3: "\<forall>k<Suc 3. \<bar>to_double (life (update_times_fl to_double k dt_tenth new_ripple)
               - dt_tenth * 2)
             - (life (update_times_fl to_double k dt_tenth new_ripple) - dt_tenth * 2)\<bar>
             \<le> 1 / 2 ^ 53"
    using err by (simp del: update_times_fl.simps)
  have n: "nat \<lceil>1 / (2 * dt_tenth - 1 / 2 ^ 53)\<rceil> = 6"
    by (simp add: dt_tenth_def)
  have e: "1 / 2 ^ 53 < 2 * dt_tenth \<and> Suc 5 = nat \<lceil>1 / (2 * dt_tenth - 1 / 2 ^ 53)\<rceil>"
    unfolding n by (simp add: dt_tenth_def)
  have up: "2 * dt_tenth * real (Suc 3) + real (Suc 3) * (1 / 2 ^ 53) < 1"
    by (simp add: dt_tenth_def)
  note dead = Particle_update_lifetime_rounded
    [of to_double dt_tenth 5 rnd_half 0 10 20 "Some ''ripple''" "1 / 2 ^ 53",
      folded new_ripple_def, OF dbl err]
  note live = Particle_update_lifetime_rounded
    [of to_double dt_tenth 3 rnd_half 0 10 20 "Some ''ripple''" "1 / 2 ^ 53",
      folded new_ripple_def, OF dbl err3]
  from dead e
  have a: "\<not> snd (Particle_update_fl to_double (update_times_fl to_double 5 dt_tenth new_ripple)
      dt_tenth)"
    by (elim conjE) (erule (1) impE [OF _ conjI])
  from live up
  have b: "snd (Particle_update_fl to_double (update_times_fl to_double 3 dt_tenth new_ripple) dt_tenth)"
    by (elim conjE) (erule (1) impE)
  from a b n show ?thesis by (intro conjI)
qed

text \<open>
  C4, as stated, fails: the source takes \<^verbatim>\<open>int(255 * life)\<close>, which truncates. A new
  celebration particle updated with \<open>dt = 1/4\<close> has life 1/2 and alpha 127, and
  \<open>255 * life = 127.5\<close> rounds to 128; a new pulse updated with \<open>dt = 1/1024\<close> has alpha
  199, and \<open>200 * life = 199.609375\<close> rounds to 200. Double arithmetic gives the same
  two alphas.
\<close>

theorem alpha_round_counterexample:
  "alpha (color (fst (Particle_update new_celebration (1 / 4)))) = 127
   \<and> life (fst (Particle_update new_celebration (1 / 4))) = 1 / 2
   \<and> py_round (255 * life (fst (Particle_update new_celebration (1 / 4)))) = 128
   \<and> alpha (color (fst (Particle_update new_pulse (1 / 1024)))) = 199
   \<and> py_round (200 * life (fst (Particle_update new_pulse (1 / 1024)))) = 200
   \<and> alpha (color (fst (Particle_update_fl to_double new_celebration (1 / 4)))) = 127
   \<and> alpha (color (fst (Particle_update_fl to_double new_pulse (1 / 1024)))) = 199"
proof -
  have a: "alpha (color (fst (Particle_update new_celebration (1 / 4)))) = 127
     \<and> life (fst (Particle_update new_celebration (1 / 4))) = 1 / 2
     \<and> py_round (255 * life (fst (Particle_update new_celebration (1 / 4)))) = 128
     \<and> alpha (color (fst (Particle_update new_pulse (1 / 1024)))) = 199
     \<and> py_round (200 * life (fst (Particle_update new_pulse (1 / 1024)))) = 200"
    by (simp add: new_celebration_def new_pulse_def Particle_init_def Particle_update_def
        Let_def rnd_half_def setAlpha_def py_int_def py_round_def)
  have ty: "effect_type new_celebration = ''celebration''" "effect_type new_pulse = ''pulse''"
      "life new_celebration = 1" "life new_pulse = 1"
    by (simp_all add: new_celebration_def new_pulse_def Particle_init_def Let_def)
  have b: "alpha (color (fst (Particle_update_fl to_double new_celebration (1 / 4)))) = 127"
    by (simp add: Particle_update_fl_alpha Particle_update_fl_life ty double_eval py_int_def)
  have c: "alpha (color (fst (Particle_update_fl to_double new_pulse (1 / 1024)))) = 199"
    by (simp add: Particle_update_fl_alpha Particle_update_fl_life ty double_eval py_int_def)
  from a b c show ?thesis by blast
qed

text \<open>
  C4, amended. After every \<^verbatim>\<open>update(dt)\<close> the alpha is the per-type product, as the float
  multiplication delivers it, truncated towards zero by \<^verbatim>\<open>int\<close> (not rounded), clamped
  below at 0 and kept within QColor's range, whose top 255 the product passes only for
  a life above 1: \<open>max(0, int(200 * life))\<close> for a pulse, \<open>max(0, int(255 * life))\<close> for
  every other type. The alpha of a pulse comes from the 200-based formula only. The
  statement holds for every rounding \<open>fl\<close> of the products.
\<close>

theorem Particle_update_alpha_truncated:
  "alpha (color (fst (Particle_update_fl fl p dt))) =
     (if effect_type p = ''pulse''
      then max 0 (min (py_int (fl (200 * life (fst (Particle_update_fl fl p dt))))) 255)
      else max 0 (min (py_int (fl (255 * life (fst (Particle_update_fl fl p dt))))) 255))
   \<and> (life (fst (Particle_update_fl fl p dt)) \<le> 1 \<and> fl (200 * life (fst (Particle_update_fl fl p dt))) \<le> 200
          \<and> fl (255 * life (fst (Particle_update_fl fl p dt))) \<le> 255 \<longrightarrow>
        alpha (color (fst (Particle_update_fl fl p dt))) =
          (if effect_type p = ''pulse''
           then max 0 (py_int (fl (200 * life (fst (Particle_update_fl fl p dt)))))
           else max 0 (py_int (fl (255 * life (fst (Particle_update_fl fl p dt)))))))"
proof -
  let ?l = "life (fst (Particle_update_fl fl p dt))"
  note a = Particle_update_fl_alpha [of fl p dt]
  have "fl (200 * ?l) \<le> 200 \<longrightarrow> py_int (fl (200 * ?l)) \<le> 255"
    using py_int_le [of "fl (200 * ?l)" 255] by simp
  moreover have "fl (255 * ?l) \<le> 255 \<longrightarrow> py_int (fl (255 * ?l)) \<le> 255"
    using py_int_le [of "fl (255 * ?l)" 255] by simp
  ultimately show ?thesis
    using a by (auto simp: min_def)
qed

theorem Particle_update_alpha_truncated_witness:
  "alpha (color (fst (Particle_update_fl to_double new_celebration dt_alpha))) = 128
   \<and> life (fst (Particle_update_fl to_double new_celebration dt_alpha))
        = 282578800148737 / 562949953421312
   \<and> py_int (255 * (282578800148737 / 562949953421312)) = 127"
proof -
  have ty: "effect_type new_celebration = ''celebration''" "life new_celebration = 1"
    by (simp_all add: new_celebration_def Particle_init_def Let_def)
  have l: "life (fst (Particle_update_fl to_double new_celebration dt_alpha))
        = 282578800148737 / 562949953421312"
    by (simp add: Particle_update_fl_life ty dt_alpha_def double_eval)
  have p: "to_double (255 * (282578800148737 / 562949953421312)) = 128"
    by (simp add: double_eval)
  have t: "py_int (255 * (282578800148737 / 562949953421312)) = 127"
    by (simp add: py_int_def)
  from Particle_update_alpha_truncated [of to_double new_celebration dt_alpha]
  have "alpha (color (fst (Particle_update_fl to_double new_celebration dt_alpha))) =
      max 0 (min (py_int (to_double (255 * life (fst (Particle_update_fl to_double new_celebration dt_alpha))))) 255)"
    by (simp add: ty)
  then have "alpha (color (fst (Particle_update_fl to_double new_celebration dt_alpha))) = 128"
    by (simp only: l p) (simp add: py_int_def)
  with l t show ?thesis by blast
qed

text \<open>
  C7. Clearing the graph, with the enhanced graphics available, leaves the particle
  collection empty whatever it held. The source has no method \<^verbatim>\<open>ParticleSystem.clear\<close>:
  the collection is emptied by \<^verbatim>\<open>self.particle_system.particles.clear()\<close> in
  \<^verbatim>\<open>EnhancedGraphWidget.clear_graph\<close>.
\<close>

theorem clear_graph_empties_particles:
  "particles (particle_system (clear_graph True self)) = []"
  by (simp add: clear_graph_def Let_def split: option.splits)

theorem clear_graph_empties_particles_witness:
  "particles (particle_system
     (clear_graph True \<lparr>particle_system = example_system, uptime_history = [100, 50],
        time_points = [0, 1], uptime_line = Some ([0, 1], [100, 50])\<rparr>)) = []
   \<and> length (particles example_system) = 3"
proof -
  have "length (map life (particles example_system)) = 3"
    by (simp only: example_system_particles) simp
  then show ?thesis
    using clear_graph_empties_particles
      [of "\<lparr>particle_system = example_system, uptime_history = [100, 50],
        time_points = [0, 1], uptime_line = Some ([0, 1], [100, 50])\<rparr>"]
    by simp
qed

text \<open>
  C10. Whenever \<^verbatim>\<open>Particle.update(dt)\<close> returns false, the alpha of the particle's
  colour is 0 after the call, for every effect type and every \<open>dt\<close>.
\<close>

theorem dead_particle_transparent:
  assumes "\<not> snd (Particle_update p dt)"
  shows "alpha (color (fst (Particle_update p dt))) = 0"
proof -
  from assms have le: "life p - dt * 2 \<le> 0"
    by (simp add: Particle_update_alive)
  have a: "py_int (255 * (life p - dt * 2)) \<le> 0"
    using le by (intro py_int_nonpos) (simp add: mult_le_0_iff)
  have b: "py_int (200 * (life p - dt * 2)) \<le> 0"
    using le by (intro py_int_nonpos) (simp add: mult_le_0_iff)
  show ?thesis
    using a b by (simp add: Particle_update_def Let_def setAlpha_def max_def min_def)
qed

theorem dead_particle_transparent_witness:
  "\<not> snd (Particle_update new_ripple (1 / 2))
   \<and> alpha (color (fst (Particle_update new_ripple (1 / 2)))) = 0"
proof -
  have dead: "\<not> snd (Particle_update new_ripple (1 / 2))"
    by (simp add: Particle_update_alive new_ripple_def Particle_init_def Let_def)
  from dead dead_particle_transparent [OF dead] show ?thesis by simp
qed



text \<open>
  C6. \<^verbatim>\<open>add_celebration_burst\<close>, \<^verbatim>\<open>add_sparkles\<close> and \<^verbatim>\<open>add_pulse\<close> extend the collection
  at its end and leave the particles it held as they were. The burst appends \<open>count\<close>
  particles of type celebration (8 without the argument), the sparkles \<open>count\<close> of type
  sparkle (3 without the argument), the pulse one of type pulse, each at \<open>(x, y)\<close>. For a
  negative \<open>count\<close> the loop does not run and nothing is appended (\<open>nat count = 0\<close>).
\<close>

theorem add_particles_append:
  "(\<exists>new. particles (fst (add_celebration_burst rnd (self, k) x y count_arg)) = particles self @ new
      \<and> length new = nat (case count_arg of None \<Rightarrow> 8 | Some c \<Rightarrow> c)
      \<and> (\<forall>p \<in> set new. effect_type p = ''celebration'' \<and> x_pos p = x \<and> y_pos p = y))
   \<and> (\<exists>new. particles (fst (add_sparkles rnd (self, k) x y count_arg)) = particles self @ new
      \<and> length new = nat (case count_arg of None \<Rightarrow> 3 | Some c \<Rightarrow> c)
      \<and> (\<forall>p \<in> set new. effect_type p = ''sparkle'' \<and> x_pos p = x \<and> y_pos p = y))
   \<and> (\<exists>p. particles (fst (add_pulse rnd (self, k) x y)) = particles self @ [p]
      \<and> effect_type p = ''pulse'' \<and> x_pos p = x \<and> y_pos p = y)"
proof -
  have pulse: "\<exists>p. particles (fst (add_pulse rnd (self, k) x y)) = particles self @ [p]
      \<and> effect_type p = ''pulse'' \<and> x_pos p = x \<and> y_pos p = y"
    using Particle_init_fields [of rnd k x y "''pulse''"]
    by (cases "Particle_init rnd k x y (Some ''pulse'')") (simp add: add_pulse_def)
  show ?thesis
    using pulse
      append_loop_particles [of "nat (case count_arg of None \<Rightarrow> 8 | Some c \<Rightarrow> c)" rnd x y "''celebration''" self k]
      append_loop_particles [of "nat (case count_arg of None \<Rightarrow> 3 | Some c \<Rightarrow> c)" rnd x y "''sparkle''" self k]
    unfolding add_celebration_burst_def add_sparkles_def Let_def
    by blast
qed

theorem add_particles_append_witness:
  "length (particles (fst (add_celebration_burst rnd_half (example_system, 9) 3 50 None))) = 11
   \<and> length (particles (fst (add_celebration_burst rnd_half (example_system, 9) 3 50 (Some 5)))) = 8
   \<and> length (particles (fst (add_sparkles rnd_half (example_system, 9) 3 50 None))) = 6
   \<and> length (particles (fst (add_pulse rnd_half (example_system, 9) 3 50))) = 4"
proof -
  have "length (map life (particles example_system)) = 3"
    by (simp only: example_system_particles) simp
  then have len: "length (particles example_system) = 3" by simp
  show ?thesis
    using len add_particles_append [of rnd_half example_system 9 3 50 None]
      add_particles_append [of rnd_half example_system 9 3 50 "Some 5"]
    by auto
qed

text \<open>
  C8. An effect type other than celebration, sparkle and pulse is accepted by the
  constructor, which has no failing branch: the particle gets zero velocity and the
  default green, opaque. Every later \<^verbatim>\<open>update(dt)\<close> leaves its position where it was
  (along any sequence of updates it stays at \<open>(x, y)\<close>), takes \<open>2 * dt\<close> off its life and
  sets the alpha from the 255-based formula.
\<close>

theorem unknown_effect_type_default:
  assumes "et \<notin> {''celebration'', ''sparkle'', ''pulse''}" and "effect_type p = et"
  shows "effect_type (fst (Particle_init rnd k x y (Some et))) = et
   \<and> velocity_x (fst (Particle_init rnd k x y (Some et))) = 0
   \<and> velocity_y (fst (Particle_init rnd k x y (Some et))) = 0
   \<and> color (fst (Particle_init rnd k x y (Some et)))
        = \<lparr>red = 102, green = 187, blue = 106, alpha = 255\<rparr>
   \<and> (\<forall>q \<in> set (update_trace (fst (Particle_init rnd k x y (Some et))) dts).
         x_pos q = x \<and> y_pos q = y)
   \<and> x_pos (fst (Particle_update p dt)) = x_pos p
   \<and> y_pos (fst (Particle_update p dt)) = y_pos p
   \<and> life (fst (Particle_update p dt)) = life p - 2 * dt
   \<and> alpha (color (fst (Particle_update p dt)))
        = max 0 (min (py_int (255 * life (fst (Particle_update p dt)))) 255)"
proof -
  let ?p0 = "fst (Particle_init rnd k x y (Some et))"
  have init: "effect_type ?p0 = et" "velocity_x ?p0 = 0" "velocity_y ?p0 = 0"
      "color ?p0 = \<lparr>red = 102, green = 187, blue = 106, alpha = 255\<rparr>"
      "x_pos ?p0 = x" "y_pos ?p0 = y"
    using assms(1) by (simp_all add: Particle_init_def Let_def)
  have "effect_type ?p0 \<notin> {''celebration'', ''sparkle'', ''pulse''}"
    using assms(1) init(1) by simp
  from other_trace [OF this, of dts]
  have trace: "\<forall>q \<in> set (update_trace ?p0 dts). x_pos q = x \<and> y_pos q = y"
    by (simp add: init)
  have "effect_type p \<notin> {''celebration'', ''sparkle'', ''pulse''}"
    using assms by simp
  note step = other_update [OF this, of dt]
  show ?thesis
    using init trace step by (simp add: Particle_update_life)
qed

theorem unknown_effect_type_default_witness:
  "''ripple'' \<notin> {''celebration'', ''sparkle'', ''pulse''}
   \<and> effect_type new_ripple = ''ripple''
   \<and> velocity_x new_ripple = 0 \<and> velocity_y new_ripple = 0
   \<and> x_pos (fst (Particle_update new_ripple (1 / 4))) = 10
   \<and> y_pos (fst (Particle_update new_ripple (1 / 4))) = 20
   \<and> life (fst (Particle_update new_ripple (1 / 4))) = 1 / 2
   \<and> alpha (color (fst (Particle_update new_ripple (1 / 4)))) = 127
   \<and> x_pos (last (update_trace new_ripple [1 / 8, 1 / 4])) = 10"
proof -
  have ne: "''ripple'' \<notin> {''celebration'', ''sparkle'', ''pulse''}" by simp
  have ty: "effect_type new_ripple = ''ripple''"
    by (simp add: new_ripple_def Particle_init_def Let_def)
  have xy: "x_pos new_ripple = 10" "y_pos new_ripple = 20" "life new_ripple = 1"
    by (simp_all add: new_ripple_def Particle_init_def Let_def)
  note inst = unknown_effect_type_default
    [OF ne ty, of rnd_half 0 10 20 "[1 / 8, 1 / 4]" "1 / 4", folded new_ripple_def]
  from inst have v: "velocity_x new_ripple = 0" "velocity_y new_ripple = 0"
    by blast+
  from inst have pos: "x_pos (fst (Particle_update new_ripple (1 / 4))) = x_pos new_ripple"
      "y_pos (fst (Particle_update new_ripple (1 / 4))) = y_pos new_ripple"
    by blast+
  from inst have "life (fst (Particle_update new_ripple (1 / 4))) = life new_ripple - 2 * (1 / 4)"
    by blast
  then have l: "life (fst (Particle_update new_ripple (1 / 4))) = 1 / 2"
    by (simp add: xy)
  from inst have "alpha (color (fst (Particle_update new_ripple (1 / 4))))
      = max 0 (min (py_int (255 * life (fst (Particle_update new_ripple (1 / 4))))) 255)"
    by blast
  then have a: "alpha (color (fst (Particle_update new_ripple (1 / 4)))) = 127"
    by (simp add: l py_int_def)
  from inst have tr: "\<forall>q \<in> set (update_trace new_ripple [1 / 8, 1 / 4]). x_pos q = 10 \<and> y_pos q = 20"
    by blast
  have "last (update_trace new_ripple [1 / 8, 1 / 4]) \<in> set (update_trace new_ripple [1 / 8, 1 / 4])"
    by (rule last_in_set) simp
  with tr have t: "x_pos (last (update_trace new_ripple [1 / 8, 1 / 4])) = 10"
    by blast
  show ?thesis
    using ne ty v pos l a t by (simp only: xy) simp
qed

text \<open>
  C9. \<^verbatim>\<open>ParticleSystem.draw\<close> leaves the painter untouched when the plot widget has no
  \<^verbatim>\<open>getViewBox\<close> or when that returns \<^verbatim>\<open>None\<close>. It always returns normally, with the
  system as it was and the painter's earlier calls kept. A particle whose mapping raises
  contributes nothing, and the painter ends as if the loop had run over the list
  without it; a particle whose mapping gives a pixel is drawn by its three painter
  calls between the drawing of the particles before it and of those after it.
\<close>

theorem draw_skips_failures:
  "draw self painter NoGetViewBox = (self, painter)
   \<and> draw self painter (GetViewBox None) = (self, painter)
   \<and> fst (draw self painter plot_widget) = self
   \<and> (\<exists>calls. snd (draw self painter plot_widget) = painter @ calls)
   \<and> (particles self = before @ p # after \<and> view_box (x_pos p) (y_pos p) = MapRaises \<longrightarrow>
        snd (draw self painter (GetViewBox (Some view_box)))
          = draw_loop view_box (before @ after) painter)
   \<and> (particles self = before @ p # after \<and> view_box (x_pos p) (y_pos p) = MapPoint px py \<longrightarrow>
        snd (draw self painter (GetViewBox (Some view_box)))
          = draw_loop view_box after
              (draw_loop view_box before painter
                 @ [SetPen (color p) 1, SetBrush (color p),
                    DrawEllipse (py_int (px - size_px p / 2)) (py_int (py - size_px p / 2))
                      (py_int (size_px p)) (py_int (size_px p))]))"
proof -
  have same: "fst (draw self painter plot_widget) = self"
    by (simp add: draw_def split: plot_widget.splits option.splits)
  have ext: "\<exists>calls. snd (draw self painter plot_widget) = painter @ calls"
    using draw_loop_extends
    by (simp add: draw_def split: plot_widget.splits option.splits)
  have skip: "particles self = before @ p # after \<and> view_box (x_pos p) (y_pos p) = MapRaises \<longrightarrow>
        snd (draw self painter (GetViewBox (Some view_box)))
          = draw_loop view_box (before @ after) painter"
    by (simp add: draw_def draw_loop_append draw_particle_def)
  have drawn: "particles self = before @ p # after \<and> view_box (x_pos p) (y_pos p) = MapPoint px py \<longrightarrow>
        snd (draw self painter (GetViewBox (Some view_box)))
          = draw_loop view_box after
              (draw_loop view_box before painter
                 @ [SetPen (color p) 1, SetBrush (color p),
                    DrawEllipse (py_int (px - size_px p / 2)) (py_int (py - size_px p / 2))
                      (py_int (size_px p)) (py_int (size_px p))])"
    by (simp add: draw_def draw_loop_append draw_particle_def Let_def)
  have none: "draw self painter NoGetViewBox = (self, painter)"
      "draw self painter (GetViewBox None) = (self, painter)"
    by (simp_all add: draw_def)
  from none same ext skip drawn show ?thesis by blast
qed

theorem draw_skips_failures_witness:
  "raises_left (x_pos (hd (particles example_far_left))) (y_pos (hd (particles example_far_left)))
     = MapRaises
   \<and> length (particles example_far_left) = 2
   \<and> snd (draw example_far_left [] (GetViewBox (Some raises_left)))
     = [SetPen \<lparr>red = 102, green = 187, blue = 106, alpha = 200\<rparr> 1,
        SetBrush \<lparr>red = 102, green = 187, blue = 106, alpha = 200\<rparr>,
        DrawEllipse 16 56 8 8]
   \<and> fst (draw example_far_left [] (GetViewBox (Some raises_left))) = example_far_left
   \<and> draw example_far_left [] NoGetViewBox = (example_far_left, [])"
proof -
  let ?p = "fst (Particle_init rnd_half 0 (- 1) 5 (Some ''pulse''))"
  let ?q = "fst (Particle_init rnd_half 0 10 20 (Some ''pulse''))"
  have ps: "particles example_far_left = [] @ ?p # [?q]"
    by (simp add: example_far_left_def add_pulse_def ParticleSystem_init_def Particle_init_def Let_def)
  have r: "raises_left (x_pos ?p) (y_pos ?p) = MapRaises"
    by (simp add: raises_left_def Particle_init_def Let_def)
  have rest: "draw_loop raises_left ([] @ [?q]) []
     = [SetPen \<lparr>red = 102, green = 187, blue = 106, alpha = 200\<rparr> 1,
         SetBrush \<lparr>red = 102, green = 187, blue = 106, alpha = 200\<rparr>,
         DrawEllipse 16 56 8 8]"
    by (simp add: draw_particle_def raises_left_def Particle_init_def Let_def py_int_def)
  note inst = draw_skips_failures [of example_far_left "[]" "GetViewBox (Some raises_left)" "[]" ?p "[?q]" raises_left]
  from inst ps r have "snd (draw example_far_left [] (GetViewBox (Some raises_left)))
      = draw_loop raises_left ([] @ [?q]) []"
    by blast
  then have a: "snd (draw example_far_left [] (GetViewBox (Some raises_left)))
     = [SetPen \<lparr>red = 102, green = 187, blue = 106, alpha = 200\<rparr> 1,
         SetBrush \<lparr>red = 102, green = 187, blue = 106, alpha = 200\<rparr>,
         DrawEllipse 16 56 8 8]"
    by (simp only: rest)
  from inst have b: "fst (draw example_far_left [] (GetViewBox (Some raises_left))) = example_far_left"
    by blast
  from inst have c: "draw example_far_left [] NoGetViewBox = (example_far_left, [])"
    by blast
  have d: "hd (particles example_far_left) = ?p" "length (particles example_far_left) = 2"
    by (simp_all add: ps)
  show ?thesis
    using a b c r by (simp only: d)
qed

end
